theory Spec2Isabelle
  imports Main "HOL-Library.Word" "HOL-Library.Sublist"
begin

unbundle bit_operations_syntax

section \<open>The rotating file producer of gollum (producer.File)\<close>

text \<open>
  A shallow embedding of \<^verbatim>\<open>producer.File\<close>, its disk writer
  \<^verbatim>\<open>fileStateWriterDisk\<close> and its \<^verbatim>\<open>filePruner\<close>.
  Go's \<^verbatim>\<open>int64\<close> is a 64-bit word read through \<open>sint\<close>; pointers are addresses
  into an explicit store; the outcome of every system call is an input of the model.
\<close>

subsection \<open>Machine integers and durations\<close>

type_synonym int64 = "64 word"

text \<open>\<^verbatim>\<open>time.Duration\<close> counts nanoseconds in an \<^verbatim>\<open>int64\<close>.\<close>

type_synonym Duration = int64

definition Second :: Duration where
  "Second = 1000000000"


subsection \<open>Rotation settings and the pruner\<close>

text \<open>
  Modelled from the spec: the declaration of \<^verbatim>\<open>fileRotateConfig\<close> is not part of the
  sources at hand; the fields are those of the rotation policy of the data model, and the
  producer reads \<^verbatim>\<open>enabled\<close>, \<^verbatim>\<open>sizeByte\<close>, \<^verbatim>\<open>atHour\<close>,
  \<^verbatim>\<open>atMinute\<close>, \<^verbatim>\<open>zeroPad\<close> and \<^verbatim>\<open>compress\<close>.
\<close>

record fileRotateConfig =
  enabled :: bool
  timeoutMin :: int
  sizeByte :: int64
  atHour :: int
  atMinute :: int
  zeroPad :: int
  compress :: bool

record filePruner =
  pruneCount :: int
  pruneHours :: int
  pruneSize :: int64
  pruner_rotate :: fileRotateConfig

text \<open>
  \<^verbatim>\<open>filePruner.Configure\<close>: \<^verbatim>\<open>>>\<close> on an \<^verbatim>\<open>int64\<close> is the arithmetic
  shift, \<^verbatim>\<open>-=\<close> wraps, the comparisons are signed.
\<close>

definition pruner_Configure :: "filePruner \<Rightarrow> filePruner" where
  "pruner_Configure pruner =
     (if 0 <s pruneSize pruner \<and> 0 <s sizeByte (pruner_rotate pruner) then
        (let pruner1 = pruner\<lparr>pruneSize :=
                pruneSize pruner - signed_drop_bit 20 (sizeByte (pruner_rotate pruner))\<rparr>
         in if pruneSize pruner1 \<le>s 0
            then pruner1\<lparr>pruneCount := 1, pruneSize := 0\<rparr>
            else pruner1)
      else pruner)"

subsection \<open>Errors and panics\<close>

text \<open>
  A Go \<^verbatim>\<open>error\<close> value is \<^verbatim>\<open>io.EOF\<close> or carries a message; \<open>None\<close> of
  \<open>error option\<close> is \<^verbatim>\<open>nil\<close>. A run-time panic is a value of its own.
\<close>

datatype error = EOF | Err string

datatype panic = IndexOutOfRange nat nat | SliceBoundsOutOfRange nat nat | NilDereference

subsection \<open>Library functions on strings and paths\<close>

text \<open>
  \<^verbatim>\<open>strings.Split(s, sep)\<close> for a separator of one byte: the pieces between the
  separators, one piece more than there are separators.
\<close>

fun splitAcc :: "char \<Rightarrow> string \<Rightarrow> string \<Rightarrow> string list" where
  "splitAcc sep acc [] = [rev acc]"
| "splitAcc sep acc (c # cs) =
     (if c = sep then rev acc # splitAcc sep [] cs else splitAcc sep (c # acc) cs)"

definition Split :: "string \<Rightarrow> char \<Rightarrow> string list" where
  "Split s sep = splitAcc sep [] s"

text \<open>Indexing a slice panics out of range.\<close>

definition index :: "'a list \<Rightarrow> nat \<Rightarrow> panic + 'a" where
  "index xs i = (if i < length xs then Inr (xs ! i) else Inl (IndexOutOfRange i (length xs)))"

text \<open>\<^verbatim>\<open>s[:n]\<close> for an \<^verbatim>\<open>int\<close> bound \<open>n\<close>: panics unless \<open>0 \<le> n \<le> len(s)\<close>.\<close>

definition slice_to :: "string \<Rightarrow> int \<Rightarrow> panic + string" where
  "slice_to s n =
     (if 0 \<le> n \<and> n \<le> int (length s) then Inr (take (nat n) s)
      else Inl (SliceBoundsOutOfRange (nat n) (length s)))"

text \<open>
  \<^verbatim>\<open>filepath.Ext\<close> (Unix): scan from the end up to the last separator; the suffix
  from the last dot of the last element, or the empty string.
\<close>

fun extScan :: "string \<Rightarrow> string \<Rightarrow> string" where
  "extScan [] acc = []"
| "extScan (c # cs) acc =
     (if c = CHR ''/'' then []
      else if c = CHR ''.'' then c # acc
      else extScan cs (c # acc))"

definition Ext :: "string \<Rightarrow> string" where
  "Ext path = extScan (rev path) []"

text \<open>
  \<^verbatim>\<open>filepath.Base\<close> (Unix): the last element of the path, trailing slashes removed
  first; \<open>.\<close> for the empty path and \<open>/\<close> for a path of slashes only.
\<close>

definition Base :: "string \<Rightarrow> string" where
  "Base path =
     (if path = [] then ''.''
      else (let stripped = rev (dropWhile (\<lambda>c. c = CHR ''/'') (rev path));
                lastElem = rev (takeWhile (\<lambda>c. c \<noteq> CHR ''/'') (rev stripped))
            in if lastElem = [] then ''/'' else lastElem))"

text \<open>\<^verbatim>\<open>strings.HasPrefix\<close> and \<^verbatim>\<open>strings.Replace(s, "*", new, -1)\<close>.\<close>

definition HasPrefix :: "string \<Rightarrow> string \<Rightarrow> bool" where
  "HasPrefix s pre = (take (length pre) s = pre)"

fun ReplaceStar :: "string \<Rightarrow> string \<Rightarrow> string" where
  "ReplaceStar [] new = []"
| "ReplaceStar (c # cs) new =
     (if c = CHR ''*'' then new @ ReplaceStar cs new else c # ReplaceStar cs new)"

text \<open>
  The library functions the producer calls whose results do not matter here are
  parameters: \<^verbatim>\<open>filepath.Dir\<close>, \<^verbatim>\<open>strconv.ParseInt\<close> (string, base, bit size;
  the error is discarded by the caller), \<^verbatim>\<open>tio.SplitPath\<close> (directory, base
  name without extension, extension) and the rendering of an \<^verbatim>\<open>int\<close> by the verbs
  \<^verbatim>\<open>%d\<close> and \<^verbatim>\<open>%0Nd\<close> of \<^verbatim>\<open>fmt.Sprintf\<close> (the width \<open>N\<close>, 0 for none, and
  the number).
\<close>

record stdlib =
  filepath_Dir :: "string \<Rightarrow> string"
  strconv_ParseInt :: "string \<Rightarrow> nat \<Rightarrow> nat \<Rightarrow> int"
  tio_SplitPath :: "string \<Rightarrow> string \<times> string \<times> string"
  fmt_d :: "int \<Rightarrow> int \<Rightarrow> string"

subsection \<open>Configuration\<close>

text \<open>
  The plugin configuration, one optional value per key that the producer reads.
\<close>

record pluginConfig =
  conf_File :: "string option"
  conf_FileOverwrite :: "bool option"
  conf_Permissions :: "nat option"
  conf_FolderPermissions :: "nat option"
  conf_Batch_TimeoutSec :: "int option"
  conf_Batch_MaxCount :: "int option"
  conf_Batch_FlushCount :: "int option"
  conf_FlushTimeoutSec :: "int option"
  conf_Rotation_Timestamp :: "string option"
  conf_Rotation_At :: "string option"
  conf_Prune_Count :: "int option"
  conf_Prune_AfterHours :: "int option"
  conf_Prune_TotalSizeMB :: "int option"

definition GetString :: "string option \<Rightarrow> string \<Rightarrow> string" where
  "GetString v dflt = (case v of None \<Rightarrow> dflt | Some s \<Rightarrow> s)"

definition GetInt :: "int option \<Rightarrow> int \<Rightarrow> int" where
  "GetInt v dflt = (case v of None \<Rightarrow> dflt | Some i \<Rightarrow> i)"

definition GetBool :: "bool option \<Rightarrow> bool \<Rightarrow> bool" where
  "GetBool v dflt = (case v of None \<Rightarrow> dflt | Some b \<Rightarrow> b)"

text \<open>The \<^verbatim>\<open>metric\<close> of a struct tag scales the configured number.\<close>

definition metric_sec :: "int \<Rightarrow> Duration" where
  "metric_sec v = word_of_int v * Second"

definition metric_mb :: "int \<Rightarrow> int64" where
  "metric_mb v = push_bit 20 (word_of_int v)"

subsection \<open>The producer\<close>

type_synonym MessageStreamID = "64 word"
type_synonym stateRef = nat
type_synonym Time = int

record File =
  filesByStream :: "MessageStreamID \<rightharpoonup> stateRef"
  files :: "string \<rightharpoonup> stateRef"
  prod_rotate :: fileRotateConfig
  timestamp :: string
  fileDir :: string
  fileName :: string
  fileExt :: string
  batchTimeout :: Duration
  batchMaxCount :: int
  batchFlushCount :: int
  flushTimeout :: Duration
  wildcardPath :: bool
  overwriteFile :: bool
  filePermissions :: nat
  folderPermissions :: nat
  Pruner :: filePruner

text \<open>
  The values of the tagged fields of \<^verbatim>\<open>File\<close> and of its \<^verbatim>\<open>filePruner\<close>: the
  configured value of the key of the tag \<^verbatim>\<open>config\<close>, or the \<^verbatim>\<open>default\<close> of the
  tag when the key is absent (the zero value when the tag has no default). The
  permissions \<^verbatim>\<open>0644\<close> and \<^verbatim>\<open>0755\<close> are octal. The fields without a tag start as zero
  values; the rotation settings are bound by tags of \<^verbatim>\<open>fileRotateConfig\<close> and are
  passed in.
\<close>

definition File_tags :: "fileRotateConfig \<Rightarrow> pluginConfig \<Rightarrow> File" where
  "File_tags rot conf =
     \<lparr> filesByStream = Map.empty,
       files = Map.empty,
       prod_rotate = rot,
       timestamp = GetString (conf_Rotation_Timestamp conf) ''2006-01-02_15'',
       fileDir = [],
       fileName = [],
       fileExt = [],
       batchTimeout = metric_sec (GetInt (conf_Batch_TimeoutSec conf) 5),
       batchMaxCount = GetInt (conf_Batch_MaxCount conf) 8192,
       batchFlushCount = GetInt (conf_Batch_FlushCount conf) 4096,
       flushTimeout = metric_sec (GetInt (conf_FlushTimeoutSec conf) 5),
       wildcardPath = False,
       overwriteFile = GetBool (conf_FileOverwrite conf) False,
       filePermissions = (case conf_Permissions conf of None \<Rightarrow> 420 | Some m \<Rightarrow> m),
       folderPermissions = (case conf_FolderPermissions conf of None \<Rightarrow> 493 | Some m \<Rightarrow> m),
       Pruner = \<lparr> pruneCount = GetInt (conf_Prune_Count conf) 0,
                  pruneHours = GetInt (conf_Prune_AfterHours conf) 0,
                  pruneSize = metric_mb (GetInt (conf_Prune_TotalSizeMB conf) 0),
                  pruner_rotate = rot \<rparr> \<rparr>"

text \<open>
  \<^verbatim>\<open>File.Configure\<close>. The callbacks and the logger are not modelled. The function
  has no error result: it returns the configured producer or panics.
\<close>

definition Configure :: "stdlib \<Rightarrow> pluginConfig \<Rightarrow> File \<Rightarrow> panic + File" where
  "Configure lib conf prd =
     (let prd1 = prd\<lparr> filesByStream := Map.empty, files := Map.empty,
                        batchFlushCount := min (batchFlushCount prd) (batchMaxCount prd) \<rparr>;
          logFile = GetString (conf_File conf) ''/var/log/gollum.log'';
          prd2 = prd1\<lparr> wildcardPath := (CHR ''*'' \<in> set logFile),
                         fileDir := filepath_Dir lib logFile,
                         fileExt := Ext logFile,
                         fileName := Base logFile \<rparr>
      in case slice_to (fileName prd2)
                (int (length (fileName prd2)) - int (length (fileExt prd2))) of
           Inl p \<Rightarrow> Inl p
         | Inr name \<Rightarrow>
             (let prd3 = prd2\<lparr> fileName := name \<rparr>;
                  rotateAt = GetString (conf_Rotation_At conf) [];
                  prd4 = prd3\<lparr> prod_rotate :=
                            (prod_rotate prd3)\<lparr> atHour := - 1, atMinute := - 1 \<rparr> \<rparr>
              in if rotateAt \<noteq> [] then
                   (let parts = Split rotateAt CHR '':'' in
                    case index parts 0 of
                      Inl p \<Rightarrow> Inl p
                    | Inr part0 \<Rightarrow>
                        (let rotateAtHour = strconv_ParseInt lib part0 10 8 in
                         case index parts 1 of
                           Inl p \<Rightarrow> Inl p
                         | Inr part1 \<Rightarrow>
                             (let rotateAtMin = strconv_ParseInt lib part1 10 8 in
                              Inr (prd4\<lparr> prod_rotate :=
                                     (prod_rotate prd4)\<lparr> atHour := rotateAtHour,
                                                           atMinute := rotateAtMin \<rparr> \<rparr>))))
                 else Inr prd4))"

subsection \<open>The disk writer\<close>

type_synonym bytes = "8 word list"

record FileInfo =
  fi_name :: string
  fi_size :: int64
  fi_modTime :: Time

text \<open>
  An open \<^verbatim>\<open>*os.File\<close> together with the file behind it: the name it was opened
  with, the bytes of the file, and what \<^verbatim>\<open>Stat\<close> and \<^verbatim>\<open>Write\<close> answer when they
  fail. The writer owns its descriptor, so the file travels with the writer.
\<close>

record osFile =
  fpath :: string
  contents :: bytes
  modTime :: Time
  statErr :: "error option"
  writeErr :: "error option"

definition Stat :: "osFile \<Rightarrow> error + FileInfo" where
  "Stat f =
     (case statErr f of
        Some e \<Rightarrow> Inl e
      | None \<Rightarrow> Inr \<lparr> fi_name = Base (fpath f),
                       fi_size = word_of_nat (length (contents f)),
                       fi_modTime = modTime f \<rparr>)"

record fileStateWriterDisk =
  wfile :: osFile
  compressOnClose :: bool
  stats :: "FileInfo option"

definition Write :: "fileStateWriterDisk \<Rightarrow> bytes \<Rightarrow> (int \<times> error option) \<times> fileStateWriterDisk" where
  "Write w p =
     (case writeErr (wfile w) of
        Some e \<Rightarrow> ((0, Some e), w)
      | None \<Rightarrow> ((int (length p), None),
                  w\<lparr> wfile := (wfile w)\<lparr> contents := contents (wfile w) @ p \<rparr> \<rparr>))"

definition Name :: "fileStateWriterDisk \<Rightarrow> string" where
  "Name w = fpath (wfile w)"

definition getStats :: "fileStateWriterDisk \<Rightarrow> (error + FileInfo) \<times> fileStateWriterDisk" where
  "getStats w =
     (case stats w of
        Some st \<Rightarrow> (Inr st, w)
      | None \<Rightarrow>
          (case Stat (wfile w) of
             Inl err \<Rightarrow> (Inl err, w)
           | Inr st \<Rightarrow> (Inr st, w\<lparr> stats := Some st \<rparr>)))"

definition Size :: "fileStateWriterDisk \<Rightarrow> int64 \<times> fileStateWriterDisk" where
  "Size w =
     (case getStats w of
        (Inl err, w') \<Rightarrow> (0, w')
      | (Inr st, w') \<Rightarrow> (fi_size st, w'))"

definition IsAccessible :: "fileStateWriterDisk \<Rightarrow> bool \<times> fileStateWriterDisk" where
  "IsAccessible w =
     (case getStats w of
        (Inl err, w') \<Rightarrow> (False, w')
      | (Inr st, w') \<Rightarrow> (True, w'))"

text \<open>
  What can happen to a writer during its life: the calls of its interface, and
  changes of the file from outside (the answers of the system calls change).
\<close>

datatype writerOp =
    OpWrite bytes
  | OpSize
  | OpIsAccessible
  | OpOutside "error option" "error option"

fun writerStep :: "fileStateWriterDisk \<Rightarrow> writerOp \<Rightarrow> fileStateWriterDisk" where
  "writerStep w (OpWrite p) = snd (Write w p)"
| "writerStep w OpSize = snd (Size w)"
| "writerStep w OpIsAccessible = snd (IsAccessible w)"
| "writerStep w (OpOutside se we) = w\<lparr> wfile := (wfile w)\<lparr> statErr := se, writeErr := we \<rparr> \<rparr>"

definition writerRun :: "fileStateWriterDisk \<Rightarrow> writerOp list \<Rightarrow> fileStateWriterDisk" where
  "writerRun w ops = foldl writerStep w ops"

subsection \<open>Compression of a rotated log\<close>

text \<open>
  The files that exist are a set of paths. The answers of the system calls of one
  compression run are inputs: whether the target opens, whether and at which call
  \<^verbatim>\<open>io.CopyN\<close> fails, and what \<^verbatim>\<open>os.Remove\<close> answers for a path.
\<close>

record compressIO =
  openTarget :: "error option"
  copyFault :: "(nat \<times> error) option"
  removeErr :: "string \<Rightarrow> error option"

datatype handle = SourceFile | GzipWriter | TargetFile

datatype sysEvent =
    OpenFile string bool
  | Seek handle
  | CopyN
  | Close handle
  | Remove string bool

definition os_Remove :: "compressIO \<Rightarrow> string set \<Rightarrow> string \<Rightarrow> string set \<times> error option" where
  "os_Remove io fs path =
     (if path \<notin> fs then (fs, Some (Err ''no such file or directory''))
      else (case removeErr io path of
              Some e \<Rightarrow> (fs, Some e)
            | None \<Rightarrow> (fs - {path}, None)))"

text \<open>
  The loop \<^verbatim>\<open>for err == nil { _, err = io.CopyN(targetWriter, w.file, 1<<20) }\<close> over a
  source with \<open>remaining\<close> bytes left: call number \<open>k\<close> fails with the injected
  fault, or copies a whole chunk and answers \<^verbatim>\<open>nil\<close>, or copies the rest, fewer than
  a chunk, and answers \<^verbatim>\<open>io.EOF\<close>. The result is the error that ends the loop and the
  number of calls made.
\<close>

definition faultAt :: "(nat \<times> error) option \<Rightarrow> nat \<Rightarrow> error option" where
  "faultAt flt k = (case flt of Some (j, e) \<Rightarrow> (if j = k then Some e else None) | None \<Rightarrow> None)"

function copyLoop :: "(nat \<times> error) option \<Rightarrow> nat \<Rightarrow> nat \<Rightarrow> error \<times> nat" where
  "copyLoop flt k remaining =
     (case faultAt flt k of
        Some e \<Rightarrow> (e, Suc k)
      | None \<Rightarrow>
          (if remaining < 2 ^ 20 then (EOF, Suc k)
           else copyLoop flt (Suc k) (remaining - 2 ^ 20)))"
  by pat_completeness auto
termination
  by (relation "measure (\<lambda>(flt, k, remaining). remaining)") auto

declare copyLoop.simps [simp del]

text \<open>The error that ends the copy loop of a run, and the target of the run.\<close>

definition copyResult :: "compressIO \<Rightarrow> fileStateWriterDisk \<Rightarrow> error" where
  "copyResult io w = fst (copyLoop (copyFault io) 0 (length (contents (wfile w))))"

definition targetOf :: "stdlib \<Rightarrow> fileStateWriterDisk \<Rightarrow> string" where
  "targetOf lib w =
     (case tio_SplitPath lib (Name w) of
        (sourceDir, sourceBase, sourceExt) \<Rightarrow> sourceDir @ ''/'' @ sourceBase @ ''.gz'')"

definition isClose :: "sysEvent \<Rightarrow> bool" where
  "isClose e = (case e of Close h \<Rightarrow> True | _ \<Rightarrow> False)"

text \<open>
  \<^verbatim>\<open>fileStateWriterDisk.compressAndCloseLog\<close>: the error returned, the files that
  exist afterwards and the system calls made, in order.
\<close>

definition compressAndCloseLog ::
  "stdlib \<Rightarrow> compressIO \<Rightarrow> string set \<Rightarrow> fileStateWriterDisk
     \<Rightarrow> error option \<times> string set \<times> sysEvent list" where
  "compressAndCloseLog lib io fs w =
     (let sourceFileName = Name w;
          (sourceDir, sourceBase, sourceExt) = tio_SplitPath lib sourceFileName;
          targetFileName = sourceDir @ ''/'' @ sourceBase @ ''.gz''
      in case openTarget io of
           Some err \<Rightarrow>
             (Some err, fs, [OpenFile targetFileName False, Close SourceFile])
         | None \<Rightarrow>
             (let fs1 = insert targetFileName fs;
                  (err, calls) = copyLoop (copyFault io) 0 (length (contents (wfile w)));
                  events = [OpenFile targetFileName True, Seek SourceFile]
                             @ replicate calls CopyN
                             @ [Close SourceFile, Close GzipWriter, Close TargetFile]
              in if err \<noteq> EOF then
                   (let (fs2, err2) = os_Remove io fs1 targetFileName
                    in (err2, fs2, events @ [Remove targetFileName (err2 = None)]))
                 else
                   (let (fs2, err2) = os_Remove io fs1 sourceFileName
                    in (err2, fs2, events @ [Remove sourceFileName (err2 = None)]))))"

text \<open>\<^verbatim>\<open>fileStateWriterDisk.Close\<close>.\<close>

definition Close_writer ::
  "stdlib \<Rightarrow> compressIO \<Rightarrow> string set \<Rightarrow> fileStateWriterDisk
     \<Rightarrow> error option \<times> string set \<times> sysEvent list" where
  "Close_writer lib io fs w =
     (if compressOnClose w then compressAndCloseLog lib io fs w
      else (None, fs, [Close SourceFile]))"

subsection \<open>Pruning\<close>




definition entryPath :: "string \<Rightarrow> FileInfo \<Rightarrow> string" where
  "entryPath baseDir f = baseDir @ ''/'' @ fi_name f"









subsection \<open>Names of rotated files\<close>

text \<open>
  \<^verbatim>\<open>tstrings.Btoi\<close>: reads decimal digits up to the first other byte into a
  \<^verbatim>\<open>uint64\<close> (the arithmetic wraps) and returns the number and how many bytes it read.
\<close>

definition isDigit :: "char \<Rightarrow> bool" where
  "isDigit c = ((48 :: nat) \<le> of_char c \<and> of_char c \<le> (57 :: nat))"

fun btoiLoop :: "64 word \<Rightarrow> nat \<Rightarrow> string \<Rightarrow> 64 word \<times> nat" where
  "btoiLoop number idx [] = (number, idx)"
| "btoiLoop number idx (c # cs) =
     (if isDigit c
      then btoiLoop (number * 10 + word_of_nat (of_char c - 48)) (Suc idx) cs
      else (number, idx))"

definition Btoi :: "string \<Rightarrow> 64 word \<times> nat" where
  "Btoi buffer = btoiLoop 0 0 buffer"

text \<open>
  The counter read from the name of an existing file: 0 when the name is the
  signature itself, else what \<^verbatim>\<open>Btoi\<close> reads behind the byte that follows the
  signature.
\<close>

definition fileCounter :: "string \<Rightarrow> string \<Rightarrow> 64 word" where
  "fileCounter signature name =
     (if length name > length signature
      then fst (Btoi (drop (length signature + 1) name))
      else 0)"

text \<open>
  The loop over the entries of the directory, \<^verbatim>\<open>maxSuffix\<close> being a \<^verbatim>\<open>uint64\<close>:
  the comparison is unsigned and \<open>counter + 1\<close> wraps.
\<close>

fun scanSuffix :: "string \<Rightarrow> 64 word \<Rightarrow> string list \<Rightarrow> 64 word" where
  "scanSuffix signature maxSuffix [] = maxSuffix"
| "scanSuffix signature maxSuffix (name # names) =
     (if HasPrefix name signature then
        (let counter = fileCounter signature name
         in scanSuffix signature (if maxSuffix \<le> counter then counter + 1 else maxSuffix) names)
      else scanSuffix signature maxSuffix names)"

text \<open>
  The counter of the new name: none when \<^verbatim>\<open>maxSuffix == 0\<close>, else
  \<^verbatim>\<open>int(maxSuffix)\<close>, the same 64 bits read as a signed number.
\<close>

definition chosenCounter :: "string \<Rightarrow> string list \<Rightarrow> int option" where
  "chosenCounter signature names =
     (let maxSuffix = scanSuffix signature 0 names
      in if maxSuffix = 0 then None else Some (sint maxSuffix))"


definition rotatedLogFileName ::
  "stdlib \<Rightarrow> int \<Rightarrow> string \<Rightarrow> string \<Rightarrow> string \<Rightarrow> string list \<Rightarrow> string" where
  "rotatedLogFileName lib zeroPadding fName timestampNow fExt names =
     (let signature = fName @ ''_'' @ timestampNow in
      case chosenCounter signature names of
        None \<Rightarrow> signature @ fExt
      | Some n \<Rightarrow>
          signature @ ''_'' @ fmt_d lib (if 0 < zeroPadding then zeroPadding else 0) n @ fExt)"

subsection \<open>Destinations and messages\<close>

text \<open>
  Modelled from the spec: \<^verbatim>\<open>fileState\<close> is declared in a file that is not among the
  sources. By the spec a destination holds its writer, or none, and the time of its
  creation. The batch of a destination belongs to \<^verbatim>\<open>core.MessageBatch\<close>; what the
  producer hands to it is recorded as an effect.
\<close>

record fileState =
  writer :: "fileStateWriterDisk option"
  fileCreated :: Time

text \<open>
  Modelled from the spec: \<^verbatim>\<open>newFileState\<close> is not among the sources; a destination
  is created on the first message for its path and has no writer before the first open.
\<close>

definition newFileState :: fileState where
  "newFileState = \<lparr> writer = None, fileCreated = 0 \<rparr>"

type_synonym msgRef = nat

record Message =
  msg_streamID :: MessageStreamID
  msg_data :: bytes

datatype effect =
    GoClose fileStateWriterDisk
  | OsOpenFile string bool bool
  | OsSymlink string string
  | OsRename string string
  | GoPrune string
  | TryFallback msgRef
  | AppendOrFlush stateRef msgRef

text \<open>
  What the surroundings answer during one call: the stream registry, the answer of an
  unforced \<^verbatim>\<open>needsRotate\<close>, \<^verbatim>\<open>os.MkdirAll\<close>, the formatted wall clock, the names
  \<^verbatim>\<open>ioutil.ReadDir\<close> lists (none when it fails) and \<^verbatim>\<open>os.OpenFile\<close> for a path,
  with or without \<^verbatim>\<open>O_TRUNC\<close>.
\<close>

record sysEnv =
  WildcardStreamID :: MessageStreamID
  GetStreamName :: "MessageStreamID \<Rightarrow> string"
  rotateDecision :: "bool \<times> error option"
  os_MkdirAll :: "string \<Rightarrow> error option"
  time_Now :: Time
  time_Now_Format :: "string \<Rightarrow> string"
  ioutil_ReadDir :: "string \<Rightarrow> string list"
  os_OpenFile :: "string \<Rightarrow> bool \<Rightarrow> error + osFile"

text \<open>
  The producer, the store of the destinations and of the messages that its pointers
  lead to, and the effects so far.
\<close>

record machine =
  producer :: File
  states :: "stateRef \<Rightarrow> fileState"
  nextState :: stateRef
  msgs :: "msgRef \<Rightarrow> Message"
  nextMsg :: msgRef
  effects :: "effect list"

text \<open>
  Modelled from the spec: \<^verbatim>\<open>fileState.needsRotate\<close> is not among the sources. By the
  spec it answers \<^verbatim>\<open>(true, nil)\<close> when the rotation is forced; every other answer
  depends on the writer and the wall clock and is an input here.
\<close>

definition needsRotate :: "sysEnv \<Rightarrow> fileState \<Rightarrow> fileRotateConfig \<Rightarrow> bool \<Rightarrow> bool \<times> error option" where
  "needsRotate env st rot forceRotate = (if forceRotate then (True, None) else rotateDecision env)"

text \<open>The message of an error, \<^verbatim>\<open>err.Error()\<close>.\<close>

definition Error :: "error \<Rightarrow> string" where
  "Error e = (case e of EOF \<Rightarrow> ''EOF'' | Err msg \<Rightarrow> msg)"

text \<open>\<^verbatim>\<open>File.newFileStateWriterDisk\<close>.\<close>

definition newFileStateWriterDisk :: "File \<Rightarrow> osFile \<Rightarrow> fileStateWriterDisk" where
  "newFileStateWriterDisk prd f =
     \<lparr> wfile = f, compressOnClose = compress (prod_rotate prd), stats = None \<rparr>"

text \<open>
  The directory, name and extension of the log of a stream: the configured ones, with
  every \<open>*\<close> replaced by the name of the stream when the path has a wildcard.
\<close>

definition resolvePath :: "sysEnv \<Rightarrow> File \<Rightarrow> MessageStreamID \<Rightarrow> string \<times> string \<times> string" where
  "resolvePath env prd streamID =
     (if wildcardPath prd then
        (let streamName = (if streamID = WildcardStreamID env then ''ALL''
                           else GetStreamName env streamID)
         in (ReplaceStar (fileDir prd) streamName,
             ReplaceStar (fileName prd) streamName,
             ReplaceStar (fileExt prd) streamName))
      else (fileDir prd, fileName prd, fileExt prd))"

text \<open>The name of the log to open, from the rotation settings and the directory.\<close>

definition newLogFileName ::
  "stdlib \<Rightarrow> sysEnv \<Rightarrow> File \<Rightarrow> string \<Rightarrow> string \<Rightarrow> string \<Rightarrow> string" where
  "newLogFileName lib env prd fDir fName fExt =
     (if \<not> enabled (prod_rotate prd) then fName @ fExt
      else rotatedLogFileName lib (zeroPad (prod_rotate prd)) fName
             (time_Now_Format env (timestamp prd)) fExt (ioutil_ReadDir env fDir))"

text \<open>
  The second half of \<^verbatim>\<open>File.getFileState\<close>, from \<^verbatim>\<open>os.MkdirAll\<close> on, for the
  destination \<open>r\<close> that the first half has settled on.
\<close>

definition openLog ::
  "stdlib \<Rightarrow> sysEnv \<Rightarrow> machine \<Rightarrow> stateRef \<Rightarrow> string \<Rightarrow> string \<Rightarrow> string \<Rightarrow> string
     \<Rightarrow> (stateRef option \<times> error option) \<times> machine" where
  "openLog lib env m r logFileBasePath fDir fName fExt =
     (let prd = producer m in
      case os_MkdirAll env fDir of
        Some err \<Rightarrow>
          ((None, Some (Err (''Failed to create '' @ fDir @ '' because of '' @ Error err))), m)
      | None \<Rightarrow>
          (let logFileName = newLogFileName lib env prd fDir fName fExt;
               logFilePath = fDir @ ''/'' @ logFileName;
               m1 = (case writer (states m r) of
                       Some currentLog \<Rightarrow>
                         m\<lparr> states := (states m)(r := (states m r)\<lparr> writer := None \<rparr>),
                            effects := effects m @ [GoClose currentLog] \<rparr>
                     | None \<Rightarrow> m)
           in case os_OpenFile env logFilePath (overwriteFile prd) of
                Inl err \<Rightarrow>
                  ((Some r, Some err),
                   m1\<lparr> effects := effects m1 @ [OsOpenFile logFilePath (overwriteFile prd) False] \<rparr>)
              | Inr stateFile \<Rightarrow>
                  (let st = (states m1 r)\<lparr> writer := Some (newFileStateWriterDisk prd stateFile),
                                           fileCreated := time_Now env \<rparr>;
                       symLinkName = fDir @ ''/'' @ fName @ ''_current'' @ fExt;
                       symLinkNameTemporary = symLinkName @ ''.tmp'';
                       links = (if enabled (prod_rotate prd)
                                then [OsSymlink logFileName symLinkNameTemporary,
                                      OsRename symLinkNameTemporary symLinkName]
                                else [])
                   in ((Some r, None),
                       m1\<lparr> states := (states m1)(r := st),
                           effects := effects m1
                             @ [OsOpenFile logFilePath (overwriteFile prd) True]
                             @ links @ [GoPrune logFileBasePath] \<rparr>))))"

text \<open>\<^verbatim>\<open>File.getFileState\<close>.\<close>

definition getFileState ::
  "stdlib \<Rightarrow> sysEnv \<Rightarrow> machine \<Rightarrow> MessageStreamID \<Rightarrow> bool
     \<Rightarrow> (stateRef option \<times> error option) \<times> machine" where
  "getFileState lib env m streamID forceRotate =
     (let prd = producer m;
          early = (case filesByStream prd streamID of
                     Some r \<Rightarrow>
                       (let (rot, err) = needsRotate env (states m r) (prod_rotate prd) forceRotate
                        in if \<not> rot then Some (r, err) else None)
                   | None \<Rightarrow> None)
      in case early of
           Some (r, err) \<Rightarrow> ((Some r, err), m)
         | None \<Rightarrow>
             (let (fDir, fName, fExt) = resolvePath env prd streamID;
                  logFileBasePath = fDir @ ''/'' @ fName @ fExt
              in case files prd logFileBasePath of
                   None \<Rightarrow>
                     (let r = nextState m;
                          m1 = m\<lparr> states := (states m)(r := newFileState),
                                  nextState := Suc r,
                                  producer := prd\<lparr> files := (files prd)(logFileBasePath \<mapsto> r),
                                                    filesByStream :=
                                                      (filesByStream prd)(streamID \<mapsto> r) \<rparr> \<rparr>
                      in openLog lib env m1 r logFileBasePath fDir fName fExt)
                 | Some r \<Rightarrow>
                     (case filesByStream prd streamID of
                        None \<Rightarrow>
                          (let m1 = m\<lparr> producer :=
                                         prd\<lparr> filesByStream :=
                                                (filesByStream prd)(streamID \<mapsto> r) \<rparr> \<rparr>;
                               (rot, err) = needsRotate env (states m r) (prod_rotate prd)
                                              forceRotate
                           in if \<not> rot then ((Some r, err), m1)
                              else openLog lib env m1 r logFileBasePath fDir fName fExt)
                      | Some r' \<Rightarrow> openLog lib env m r logFileBasePath fDir fName fExt)))"

text \<open>
  \<^verbatim>\<open>Message.Clone\<close> allocates a copy; \<^verbatim>\<open>File.writeMessage\<close> ends in a call of
  \<^verbatim>\<open>TryFallback\<close> or of \<^verbatim>\<open>AppendOrFlush\<close>, recorded with the pointer it is given.
\<close>

definition Clone :: "machine \<Rightarrow> msgRef \<Rightarrow> msgRef \<times> machine" where
  "Clone m msg =
     (nextMsg m, m\<lparr> msgs := (msgs m)(nextMsg m := msgs m msg), nextMsg := Suc (nextMsg m) \<rparr>)"

definition writeMessage :: "stdlib \<Rightarrow> sysEnv \<Rightarrow> machine \<Rightarrow> msgRef \<Rightarrow> panic + machine" where
  "writeMessage lib env m msg =
     (let (streamMsg, m1) = Clone m msg;
          ((state, err), m2) = getFileState lib env m1 (msg_streamID (msgs m1 streamMsg)) False
      in case err of
           Some e \<Rightarrow> Inr (m2\<lparr> effects := effects m2 @ [TryFallback msg] \<rparr>)
         | None \<Rightarrow>
             (case state of
                None \<Rightarrow> Inl NilDereference
              | Some r \<Rightarrow> Inr (m2\<lparr> effects := effects m2 @ [AppendOrFlush r msg] \<rparr>)))"

subsection \<open>Concrete inputs\<close>

definition rotation0 :: fileRotateConfig where
  "rotation0 = \<lparr> enabled = True, timeoutMin = 1440, sizeByte = 10485760,
                  atHour = - 1, atMinute = - 1, zeroPad = 0, compress = False \<rparr>"

definition pruner_small :: filePruner where
  "pruner_small = \<lparr> pruneCount = 0, pruneHours = 0, pruneSize = 5, pruner_rotate = rotation0 \<rparr>"

definition pruner_large :: filePruner where
  "pruner_large = \<lparr> pruneCount = 0, pruneHours = 0, pruneSize = 536870912,
                     pruner_rotate = rotation0 \<rparr>"

text \<open>
  A library for the concrete runs: decimal rendering with zero padding behind the
  sign, the directory as the part before the last slash, \<^verbatim>\<open>ParseInt\<close> on unsigned
  decimal strings, and the path split into directory, base name and extension.
\<close>

function showNat :: "nat \<Rightarrow> string" where
  "showNat n = (if n < 10 then [''0123456789'' ! n]
                else showNat (n div 10) @ [''0123456789'' ! (n mod 10)])"
  by pat_completeness auto
termination
  by (relation "measure id") auto

declare showNat.simps [simp del]

definition lib_fmt_d :: "int \<Rightarrow> int \<Rightarrow> string" where
  "lib_fmt_d width v =
     (let ds = showNat (nat \<bar>v\<bar>);
          sign = (if v < 0 then ''-'' else [])
      in sign @ replicate (nat width - length sign - length ds) CHR ''0'' @ ds)"

definition lib_Dir :: "string \<Rightarrow> string" where
  "lib_Dir path = rev (drop 1 (dropWhile (\<lambda>c. c \<noteq> CHR ''/'') (rev path)))"

definition lib_ParseInt :: "string \<Rightarrow> nat \<Rightarrow> nat \<Rightarrow> int" where
  "lib_ParseInt s base bitSize =
     (if s \<noteq> [] \<and> list_all isDigit s
      then min (uint (fst (Btoi s))) (2 ^ (bitSize - 1) - 1)
      else 0)"

definition lib_SplitPath :: "string \<Rightarrow> string \<times> string \<times> string" where
  "lib_SplitPath path =
     (lib_Dir path, take (length (Base path) - length (Ext path)) (Base path), Ext path)"

definition lib0 :: stdlib where
  "lib0 = \<lparr> filepath_Dir = lib_Dir, strconv_ParseInt = lib_ParseInt,
            tio_SplitPath = lib_SplitPath, fmt_d = lib_fmt_d \<rparr>"

text \<open>The configuration that sets no key.\<close>

definition emptyConfig :: pluginConfig where
  "emptyConfig = \<lparr> conf_File = None, conf_FileOverwrite = None, conf_Permissions = None,
      conf_FolderPermissions = None, conf_Batch_TimeoutSec = None, conf_Batch_MaxCount = None,
      conf_Batch_FlushCount = None, conf_FlushTimeoutSec = None, conf_Rotation_Timestamp = None,
      conf_Rotation_At = None, conf_Prune_Count = None, conf_Prune_AfterHours = None,
      conf_Prune_TotalSizeMB = None \<rparr>"

text \<open>An open log of three bytes, a writer on it, and a writer whose stat fails.\<close>

definition file0 :: osFile where
  "file0 = \<lparr> fpath = ''/var/log/gollum.log'', contents = [1, 2, 3], modTime = 0,
             statErr = None, writeErr = None \<rparr>"

definition writer0 :: fileStateWriterDisk where
  "writer0 = \<lparr> wfile = file0, compressOnClose = False, stats = None \<rparr>"

definition writer_broken :: fileStateWriterDisk where
  "writer_broken = \<lparr> wfile = file0\<lparr> statErr := Some (Err ''bad file descriptor'') \<rparr>,
                      compressOnClose = False, stats = None \<rparr>"

definition info0 :: FileInfo where
  "info0 = \<lparr> fi_name = ''gollum.log'', fi_size = 3, fi_modTime = 0 \<rparr>"

definition ops0 :: "writerOp list" where
  "ops0 = [OpWrite [4, 5], OpSize, OpOutside (Some (Err ''stale'')) None, OpWrite [6],
           OpIsAccessible]"

text \<open>Three compression runs: all goes well; the disk is full at the first chunk;
  nothing can be removed.\<close>

definition io_ok :: compressIO where
  "io_ok = \<lparr> openTarget = None, copyFault = None, removeErr = (\<lambda>p. None) \<rparr>"

definition io_diskfull :: compressIO where
  "io_diskfull = \<lparr> openTarget = None, copyFault = Some (0, Err ''no space left on device''),
                    removeErr = (\<lambda>p. None) \<rparr>"

definition io_noremove :: compressIO where
  "io_noremove = \<lparr> openTarget = None, copyFault = None,
                    removeErr = (\<lambda>p. Some (Err ''operation not permitted'')) \<rparr>"

definition fs0 :: "string set" where
  "fs0 = {''/var/log/gollum.log''}"

text \<open>Five rotated logs, oldest first, and a pruner that keeps two files.\<close>

definition pruner_count2 :: filePruner where
  "pruner_count2 = \<lparr> pruneCount = 2, pruneHours = 0, pruneSize = 0, pruner_rotate = rotation0 \<rparr>"




text \<open>
  A producer for \<^verbatim>\<open>/var/log/gollum.log\<close> with rotation, before its first message and
  with an open log for stream 7; surroundings in which every call succeeds, and
  surroundings in which no file can be opened.
\<close>

definition producer0 :: File where
  "producer0 =
     \<lparr> filesByStream = Map.empty, files = Map.empty, prod_rotate = rotation0,
       timestamp = ''2006'', fileDir = ''/var/log'', fileName = ''gollum'', fileExt = ''.log'',
       batchTimeout = 5 * Second, batchMaxCount = 8192, batchFlushCount = 4096,
       flushTimeout = 5 * Second, wildcardPath = False, overwriteFile = False,
       filePermissions = 420, folderPermissions = 493, Pruner = pruner_count2 \<rparr>"

definition message0 :: Message where
  "message0 = \<lparr> msg_streamID = 7, msg_data = [104, 105] \<rparr>"

definition machine0 :: machine where
  "machine0 = \<lparr> producer = producer0, states = (\<lambda>r. newFileState), nextState = 0,
                 msgs = (\<lambda>p. message0), nextMsg = 1, effects = [] \<rparr>"

definition machine1 :: machine where
  "machine1 =
     \<lparr> producer = producer0\<lparr> filesByStream := [7 \<mapsto> 0],
                                files := [''/var/log/gollum.log'' \<mapsto> 0] \<rparr>,
       states = (\<lambda>r. newFileState)(0 := \<lparr> writer = Some writer0, fileCreated = 0 \<rparr>),
       nextState = 1, msgs = (\<lambda>p. message0), nextMsg = 1, effects = [] \<rparr>"

definition env_ok :: sysEnv where
  "env_ok = \<lparr> WildcardStreamID = 1, GetStreamName = (\<lambda>s. ''stream''),
              rotateDecision = (False, None), os_MkdirAll = (\<lambda>dir. None), time_Now = 1000,
              time_Now_Format = (\<lambda>layout. ''2001''), ioutil_ReadDir = (\<lambda>dir. []),
              os_OpenFile = (\<lambda>path trunc. Inr (file0\<lparr> fpath := path, contents := [] \<rparr>)) \<rparr>"

definition env_noopen :: sysEnv where
  "env_noopen = env_ok\<lparr> os_OpenFile := (\<lambda>path trunc. Inl (Err ''permission denied'')) \<rparr>"

section \<open>Properties\<close>

subsection \<open>Signed 64-bit arithmetic\<close>

lemma sint_shift20: "sint (signed_drop_bit 20 (x :: int64)) = sint x div 2 ^ 20"
  by (simp add: sint_signed_drop_bit_eq drop_bit_eq_div)

lemma sint_sub_headroom:
  fixes a b :: int64
  assumes "0 < sint a" and "0 < sint b"
  shows "sint (a - signed_drop_bit 20 b) = sint a - sint b div 2 ^ 20"
proof -
  have la: "sint a < 2 ^ 63" using sint_lt [of a] by simp
  have lb: "sint b < 2 ^ 63" using sint_lt [of b] by simp
  have q0: "0 \<le> sint b div 2 ^ 20" using assms(2) by simp
  have q1: "sint b div 2 ^ 20 \<le> sint b"
    using assms(2) by simp
  have lo: "- (2 ^ 63) \<le> sint a - sint b div 2 ^ 20" using assms(1) q1 lb by linarith
  have hi: "sint a - sint b div 2 ^ 20 < 2 ^ 63" using la q0 by linarith
  have "sint (a - signed_drop_bit 20 b)
          = signed_take_bit 63 (sint a - sint (signed_drop_bit 20 b))"
    by (simp add: sint_word_ariths)
  also have "\<dots> = signed_take_bit 63 (sint a - sint b div 2 ^ 20)"
    by (simp only: sint_shift20)
  also have "\<dots> = sint a - sint b div 2 ^ 20"
    using lo hi by (simp add: signed_take_bit_int_eq_self)
  finally show ?thesis .
qed

subsection \<open>Headroom of the size limit\<close>

text \<open>
  C5. When the total-size limit and the rotation size threshold are both positive,
  \<^verbatim>\<open>filePruner.Configure\<close> subtracts the threshold in MiB (the threshold shifted right
  by 20 bits) from the limit; when the difference is not positive the pruner keeps one
  file (\<open>pruneCount = 1\<close>) and the size limit is switched off (\<open>pruneSize = 0\<close>),
  otherwise the difference is the new limit and the count is untouched.
\<close>

theorem pruner_Configure_headroom:
  assumes "0 < sint (pruneSize p)" and "0 < sint (sizeByte (pruner_rotate p))"
  shows "sint (pruneSize (pruner_Configure p)) =
           (if sint (pruneSize p) - sint (sizeByte (pruner_rotate p)) div 2 ^ 20 \<le> 0 then 0
            else sint (pruneSize p) - sint (sizeByte (pruner_rotate p)) div 2 ^ 20)
       \<and> pruneCount (pruner_Configure p) =
           (if sint (pruneSize p) - sint (sizeByte (pruner_rotate p)) div 2 ^ 20 \<le> 0 then 1
            else pruneCount p)"
proof -
  have sub: "sint (pruneSize p - signed_drop_bit 20 (sizeByte (pruner_rotate p)))
               = sint (pruneSize p) - sint (sizeByte (pruner_rotate p)) div 2 ^ 20"
    using assms by (rule sint_sub_headroom)
  show ?thesis
    using assms sub
    by (simp add: pruner_Configure_def Let_def word_sless_alt word_sle_eq)
qed

theorem pruner_Configure_headroom_witness:
  "0 < sint (pruneSize pruner_small) \<and> 0 < sint (sizeByte (pruner_rotate pruner_small))
   \<and> sint (pruneSize (pruner_Configure pruner_small)) = 0
   \<and> pruneCount (pruner_Configure pruner_small) = 1
   \<and> 0 < sint (pruneSize pruner_large) \<and> 0 < sint (sizeByte (pruner_rotate pruner_large))
   \<and> sint (pruneSize (pruner_Configure pruner_large)) = 536870902
   \<and> pruneCount (pruner_Configure pruner_large) = 0"
  using pruner_Configure_headroom [of pruner_small] pruner_Configure_headroom [of pruner_large]
  by (simp add: pruner_small_def pruner_large_def rotation0_def)

subsection \<open>Configuration of the producer\<close>

lemma length_splitAcc: "length (splitAcc sep acc s) = Suc (length (filter (\<lambda>c. c = sep) s))"
  by (induction s arbitrary: acc) auto

lemma length_Split: "length (Split s sep) = Suc (length (filter (\<lambda>c. c = sep) s))"
  by (simp add: Split_def length_splitAcc)

lemma length_extScan:
  "length (extScan r acc) \<le> length (takeWhile (\<lambda>c. c \<noteq> CHR ''/'') r) + length acc"
proof (induction r arbitrary: acc)
  case Nil
  show ?case by simp
next
  case (Cons a r)
  show ?case using Cons [of "a # acc"] by simp
qed

text \<open>The extension is never longer than the base name, so the slice of the name is in range.\<close>

lemma length_Ext_le_Base: "length (Ext path) \<le> length (Base path)"
proof (cases "path = []")
  case True
  then show ?thesis by (simp add: Ext_def Base_def)
next
  case False
  then obtain c r where r: "rev path = c # r" by (cases "rev path") auto
  show ?thesis
  proof (cases "c = CHR ''/''")
    case True
    with r show ?thesis by (simp add: Ext_def)
  next
    case slash: False
    have "length (Ext path) \<le> length (takeWhile (\<lambda>c. c \<noteq> CHR ''/'') (rev path))"
      using length_extScan [of "rev path" "[]"] by (simp add: Ext_def)
    moreover have "Base path = rev (takeWhile (\<lambda>c. c \<noteq> CHR ''/'') (rev path))"
      using False r slash by (simp add: Base_def Let_def)
    ultimately show ?thesis by simp
  qed
qed

lemma slice_to_Base_Ext:
  "slice_to (Base path) (int (length (Base path)) - int (length (Ext path)))
     = Inr (take (length (Base path) - length (Ext path)) (Base path))"
  using length_Ext_le_Base [of path] by (simp add: slice_to_def nat_diff_distrib')

text \<open>
  C10. With a non-empty \<^verbatim>\<open>Rotation/At\<close> that holds no colon, \<^verbatim>\<open>File.Configure\<close>
  reads the second element of a split of one element and panics with an index out of
  range (index 1, length 1); it returns no error. In every other case it returns a
  producer: it is total exactly when \<^verbatim>\<open>Rotation/At\<close> is empty or holds a colon.
\<close>

theorem Configure_Rotation_At:
  "(let rotateAt = GetString (conf_Rotation_At conf) [] in
    if rotateAt \<noteq> [] \<and> CHR '':'' \<notin> set rotateAt
    then Configure lib conf prd = Inl (IndexOutOfRange 1 1)
    else \<not> isl (Configure lib conf prd))"
proof -
  define rotateAt where "rotateAt = GetString (conf_Rotation_At conf) []"
  define path where "path = GetString (conf_File conf) ''/var/log/gollum.log''"
  have len: "length (Split rotateAt CHR '':'') = Suc (length (filter (\<lambda>c. c = CHR '':'') rotateAt))"
    by (rule length_Split)
  show ?thesis
  proof (cases "rotateAt \<noteq> [] \<and> CHR '':'' \<notin> set rotateAt")
    case True
    then have "length (Split rotateAt CHR '':'') = 1"
      using len by (auto simp add: filter_empty_conv)
    then show ?thesis
      using True
      by (auto simp add: Configure_def Let_def slice_to_Base_Ext index_def
            rotateAt_def [symmetric] path_def [symmetric])
  next
    case False
    show ?thesis
    proof (cases "rotateAt = []")
      case True
      then show ?thesis
        by (auto simp add: Configure_def Let_def slice_to_Base_Ext index_def
            rotateAt_def [symmetric] path_def [symmetric])
    next
      case ne: False
      with False have "CHR '':'' \<in> set rotateAt" by simp
      then have "filter (\<lambda>c. c = CHR '':'') rotateAt \<noteq> []"
        by (simp add: filter_empty_conv)
      then have "1 < length (Split rotateAt CHR '':'')"
        using len by (cases "filter (\<lambda>c. c = CHR '':'') rotateAt") auto
      then show ?thesis
        using ne False
        by (auto simp add: Configure_def Let_def slice_to_Base_Ext index_def
            rotateAt_def [symmetric] path_def [symmetric])
    qed
  qed
qed

theorem Configure_Rotation_At_witness:
  "Configure lib0 (emptyConfig\<lparr> conf_Rotation_At := Some ''12'' \<rparr>)
       (File_tags rotation0 emptyConfig)
     = Inl (IndexOutOfRange 1 1)
   \<and> \<not> isl (Configure lib0 (emptyConfig\<lparr> conf_Rotation_At := Some ''12:30'' \<rparr>)
               (File_tags rotation0 emptyConfig))"
  using Configure_Rotation_At [of "emptyConfig\<lparr> conf_Rotation_At := Some ''12'' \<rparr>" lib0
          "File_tags rotation0 emptyConfig"]
     Configure_Rotation_At [of "emptyConfig\<lparr> conf_Rotation_At := Some ''12:30'' \<rparr>" lib0
          "File_tags rotation0 emptyConfig"]
  by (simp add: GetString_def)

lemma Configure_without_Rotation_At:
  "conf_Rotation_At conf = None \<Longrightarrow> \<not> isl (Configure lib conf prd)"
  by (auto simp add: Configure_def Let_def slice_to_Base_Ext GetString_def)

lemma Configure_keeps_flushTimeout:
  "Configure lib conf prd = Inr prd' \<Longrightarrow> flushTimeout prd' = flushTimeout prd"
  by (auto simp add: Configure_def Let_def split: sum.splits if_splits)

text \<open>
  C8. Without the key \<^verbatim>\<open>FlushTimeoutSec\<close> the flush timeout of the producer is the
  default of the struct tag, 5 seconds, and \<^verbatim>\<open>Configure\<close> leaves it so: it is not the
  0 that the documentation of the field announces.
\<close>

theorem flushTimeout_default:
  "flushTimeout (File_tags rot emptyConfig) = 5 * Second
   \<and> flushTimeout (File_tags rot emptyConfig) \<noteq> 0
   \<and> map_sum id flushTimeout (Configure lib emptyConfig (File_tags rot emptyConfig))
       = Inr (5 * Second)"
proof -
  have a: "flushTimeout (File_tags rot emptyConfig) = 5 * Second"
    by (simp add: File_tags_def emptyConfig_def GetInt_def metric_sec_def)
  have b: "(5 * Second :: Duration) \<noteq> 0" by (simp add: Second_def)
  have "\<not> isl (Configure lib emptyConfig (File_tags rot emptyConfig))"
    by (rule Configure_without_Rotation_At) (simp add: emptyConfig_def)
  then obtain prd' where c: "Configure lib emptyConfig (File_tags rot emptyConfig) = Inr prd'"
    by (cases "Configure lib emptyConfig (File_tags rot emptyConfig)") auto
  show ?thesis using a b c Configure_keeps_flushTimeout [OF c] by simp
qed

subsection \<open>The cached stat of the disk writer\<close>

lemma stats_writerStep: "stats w = Some st \<Longrightarrow> stats (writerStep w op) = Some st"
  by (cases op) (simp_all add: Write_def Size_def IsAccessible_def getStats_def split: option.splits)

lemma stats_writerRun: "stats w = Some st \<Longrightarrow> stats (writerRun w ops) = Some st"
  unfolding writerRun_def
  by (induction ops arbitrary: w) (simp_all add: stats_writerStep)

lemma Size_cached: "stats w = Some st \<Longrightarrow> Size w = (fi_size st, w)"
  by (simp add: Size_def getStats_def)

lemma getStats_caches: "getStats w = (Inr st, w1) \<Longrightarrow> stats w1 = Some st"
  by (auto simp add: getStats_def split: option.splits sum.splits)

text \<open>
  C9. The stat result is cached for the life of the writer. After a successful
  \<^verbatim>\<open>getStats\<close>, made by \<^verbatim>\<open>Size\<close> or by \<^verbatim>\<open>IsAccessible\<close>, every later
  \<^verbatim>\<open>Size\<close> returns the size of that first stat, whatever is written and whatever
  happens to the file in between; and \<^verbatim>\<open>Size\<close> returns 0 when the stat fails and
  nothing is cached.
\<close>

theorem Size_is_cached:
  "(getStats w = (Inr st, w1) \<longrightarrow> fst (Size (writerRun w1 ops)) = fi_size st)
   \<and> (stats w = None \<and> Stat (wfile w) = Inr st \<longrightarrow>
        fst (Size w) = fi_size st
        \<and> fst (Size (writerRun (snd (Size w)) ops)) = fi_size st
        \<and> fst (Size (writerRun (snd (IsAccessible w)) ops)) = fi_size st)
   \<and> (stats w = None \<and> Stat (wfile w) = Inl e \<longrightarrow> fst (Size w) = 0)"
proof (intro conjI impI)
  assume "getStats w = (Inr st, w1)"
  then have "stats (writerRun w1 ops) = Some st"
    by (intro stats_writerRun getStats_caches)
  then show "fst (Size (writerRun w1 ops)) = fi_size st"
    by (simp add: Size_cached)
next
  assume a: "stats w = None \<and> Stat (wfile w) = Inr st"
  then have g: "getStats w = (Inr st, w\<lparr> stats := Some st \<rparr>)"
    by (simp add: getStats_def)
  show "fst (Size w) = fi_size st" by (simp add: Size_def g)
  have "stats (writerRun (snd (Size w)) ops) = Some st"
    by (rule stats_writerRun) (simp add: Size_def g)
  then show "fst (Size (writerRun (snd (Size w)) ops)) = fi_size st"
    by (simp add: Size_cached)
  have "stats (writerRun (snd (IsAccessible w)) ops) = Some st"
    by (rule stats_writerRun) (simp add: IsAccessible_def g)
  then show "fst (Size (writerRun (snd (IsAccessible w)) ops)) = fi_size st"
    by (simp add: Size_cached)
next
  assume "stats w = None \<and> Stat (wfile w) = Inl e"
  then show "fst (Size w) = 0"
    by (simp add: Size_def getStats_def)
qed

theorem Size_is_cached_witness:
  "getStats writer0 = (Inr info0, writer0\<lparr> stats := Some info0 \<rparr>)
   \<and> stats writer0 = None \<and> Stat (wfile writer0) = Inr info0
   \<and> length (contents (wfile (writerRun (snd (Size writer0)) ops0))) = 6
   \<and> fst (Size (writerRun (writer0\<lparr> stats := Some info0 \<rparr>) ops0)) = 3
   \<and> fst (Size (writerRun (snd (Size writer0)) ops0)) = 3
   \<and> fst (Size (writerRun (snd (IsAccessible writer0)) ops0)) = 3
   \<and> stats writer_broken = None
   \<and> Stat (wfile writer_broken) = Inl (Err ''bad file descriptor'')
   \<and> fst (Size writer_broken) = 0"
proof -
  have s: "stats writer0 = None \<and> Stat (wfile writer0) = Inr info0"
    by (simp add: writer0_def file0_def Stat_def Base_def info0_def)
  have g: "getStats writer0 = (Inr info0, writer0\<lparr> stats := Some info0 \<rparr>)"
    using s by (simp add: getStats_def)
  have b: "stats writer_broken = None
           \<and> Stat (wfile writer_broken) = Inl (Err ''bad file descriptor'')"
    by (simp add: writer_broken_def Stat_def)
  have len: "length (contents (wfile (writerRun (snd (Size writer0)) ops0))) = 6"
    by (simp add: writerRun_def Write_def Size_def IsAccessible_def getStats_def writer0_def
          file0_def Stat_def Base_def ops0_def)
  have sz: "fi_size info0 = 3" by (simp add: info0_def)
  show ?thesis
    using Size_is_cached [of writer0 info0 "writer0\<lparr> stats := Some info0 \<rparr>" ops0
            "Err ''bad file descriptor''"]
          Size_is_cached [of writer_broken info0 writer_broken ops0 "Err ''bad file descriptor''"]
          g s b len sz
    by simp
qed

subsection \<open>Compression\<close>

lemma filter_isClose_replicate: "filter isClose (replicate n CopyN) = []"
  by (induction n) (simp_all add: isClose_def)

lemma compress_events:
  assumes "openTarget io = None"
  shows "\<exists>n p ok. snd (snd (compressAndCloseLog lib io fs w)) =
           [OpenFile (targetOf lib w) True, Seek SourceFile] @ replicate n CopyN
             @ [Close SourceFile, Close GzipWriter, Close TargetFile, Remove p ok]"
  using assms
  by (auto simp add: compressAndCloseLog_def targetOf_def Let_def split: prod.splits)

lemma compress_result:
  assumes "openTarget io = None"
  shows "compressAndCloseLog lib io fs w =
     (let victim = (if copyResult io w \<noteq> EOF then targetOf lib w else Name w);
          (fs2, err2) = os_Remove io (insert (targetOf lib w) fs) victim
      in (err2, fs2,
          [OpenFile (targetOf lib w) True, Seek SourceFile]
            @ replicate (snd (copyLoop (copyFault io) 0 (length (contents (wfile w))))) CopyN
            @ [Close SourceFile, Close GzipWriter, Close TargetFile, Remove victim (err2 = None)]))"
  using assms
  by (auto simp add: compressAndCloseLog_def targetOf_def copyResult_def Let_def split: prod.splits)

text \<open>
  C3, as the code has it. For a compression run whose target opens, on a source that
  exists and is not the target itself: when the copy loop ends with an error other than
  \<^verbatim>\<open>io.EOF\<close>, the run tries to remove the target and keeps the source; when the copy
  reaches the end of the input, the run tries to remove the source, keeps the target and
  returns the answer of that removal. In both cases the file to remove is gone exactly
  when the removal succeeds: then one of the two files remains, else both.
\<close>

theorem compress_leaves_one:
  assumes "openTarget io = None"
    and "targetOf lib w \<noteq> Name w"
    and "Name w \<in> fs"
  shows "(let (err, fs', events) = compressAndCloseLog lib io fs w in
          if copyResult io w \<noteq> EOF
          then Name w \<in> fs'
               \<and> Remove (targetOf lib w) (removeErr io (targetOf lib w) = None) \<in> set events
               \<and> (targetOf lib w \<in> fs') = (removeErr io (targetOf lib w) \<noteq> None)
          else targetOf lib w \<in> fs'
               \<and> Remove (Name w) (removeErr io (Name w) = None) \<in> set events
               \<and> (Name w \<in> fs') = (removeErr io (Name w) \<noteq> None)
               \<and> err = removeErr io (Name w))"
  using assms
  by (auto simp add: compress_result os_Remove_def Let_def split: option.splits)

theorem compress_leaves_one_witness:
  "openTarget io_ok = None \<and> targetOf lib0 writer0 \<noteq> Name writer0 \<and> Name writer0 \<in> fs0
   \<and> copyResult io_ok writer0 = EOF
   \<and> fst (snd (compressAndCloseLog lib0 io_ok fs0 writer0)) = {''/var/log/gollum.gz''}
   \<and> copyResult io_diskfull writer0 = Err ''no space left on device''
   \<and> fst (snd (compressAndCloseLog lib0 io_diskfull fs0 writer0)) = {''/var/log/gollum.log''}"
proof -
  have t: "targetOf lib0 writer0 = ''/var/log/gollum.gz''"
    by (simp add: targetOf_def lib0_def lib_SplitPath_def Name_def writer0_def file0_def
          Base_def Ext_def lib_Dir_def)
  have n: "Name writer0 = ''/var/log/gollum.log''"
    by (simp add: Name_def writer0_def file0_def)
  have c1: "copyResult io_ok writer0 = EOF"
    by (simp add: copyResult_def io_ok_def writer0_def file0_def copyLoop.simps faultAt_def)
  have c2: "copyResult io_diskfull writer0 = Err ''no space left on device''"
    by (simp add: copyResult_def io_diskfull_def writer0_def file0_def copyLoop.simps faultAt_def)
  have r1: "removeErr io_ok p = None" for p by (simp add: io_ok_def)
  have r2: "removeErr io_diskfull p = None" for p by (simp add: io_diskfull_def)
  have o: "openTarget io_ok = None" "openTarget io_diskfull = None"
    by (simp_all add: io_ok_def io_diskfull_def)
  have f1: "fst (snd (compressAndCloseLog lib0 io_ok fs0 writer0)) = {''/var/log/gollum.gz''}"
    by (auto simp add: compress_result o c1 t n os_Remove_def r1 fs0_def Let_def)
  have f2: "fst (snd (compressAndCloseLog lib0 io_diskfull fs0 writer0)) = {''/var/log/gollum.log''}"
    by (auto simp add: compress_result o c2 t n os_Remove_def r2 fs0_def Let_def)
  show ?thesis
    using compress_leaves_one [of io_ok lib0 writer0 fs0] t n c1 c2 o f1 f2
    by (simp add: fs0_def)
qed

theorem compress_counterexample:
  "copyResult io_noremove writer0 = EOF
   \<and> fst (snd (compressAndCloseLog lib0 io_noremove fs0 writer0))
       = {''/var/log/gollum.gz'', ''/var/log/gollum.log''}
   \<and> copyResult io_diskfull writer0 = Err ''no space left on device''
   \<and> fst (compressAndCloseLog lib0 io_diskfull fs0 writer0) = None"
proof -
  have t: "targetOf lib0 writer0 = ''/var/log/gollum.gz''"
    by (simp add: targetOf_def lib0_def lib_SplitPath_def Name_def writer0_def file0_def
          Base_def Ext_def lib_Dir_def)
  have n: "Name writer0 = ''/var/log/gollum.log''"
    by (simp add: Name_def writer0_def file0_def)
  have c1: "copyResult io_noremove writer0 = EOF"
    by (simp add: copyResult_def io_noremove_def writer0_def file0_def copyLoop.simps faultAt_def)
  have c2: "copyResult io_diskfull writer0 = Err ''no space left on device''"
    by (simp add: copyResult_def io_diskfull_def writer0_def file0_def copyLoop.simps faultAt_def)
  have r1: "removeErr io_noremove p = Some (Err ''operation not permitted'')" for p
    by (simp add: io_noremove_def)
  have r2: "removeErr io_diskfull p = None" for p by (simp add: io_diskfull_def)
  have o: "openTarget io_noremove = None" "openTarget io_diskfull = None"
    by (simp_all add: io_noremove_def io_diskfull_def)
  have f1: "fst (snd (compressAndCloseLog lib0 io_noremove fs0 writer0))
              = {''/var/log/gollum.gz'', ''/var/log/gollum.log''}"
    by (auto simp add: compress_result o c1 t n os_Remove_def r1 fs0_def Let_def)
  have f2: "fst (compressAndCloseLog lib0 io_diskfull fs0 writer0) = None"
    by (auto simp add: compress_result o c2 t n os_Remove_def r2 fs0_def Let_def)
  show ?thesis using c1 c2 f1 f2 by simp
qed

text \<open>
  C7, as the code has it. In a compression run whose target opens, the handles are
  closed after the last chunk in this order: the source file, the gzip writer, the
  target file.
\<close>

theorem compress_close_order:
  assumes "openTarget io = None"
  shows "filter isClose (snd (snd (compressAndCloseLog lib io fs w)))
           = [Close SourceFile, Close GzipWriter, Close TargetFile]
       \<and> CopyN \<notin> set (dropWhile (\<lambda>e. \<not> isClose e) (snd (snd (compressAndCloseLog lib io fs w))))"
proof -
  obtain n p ok where ev: "snd (snd (compressAndCloseLog lib io fs w)) =
           [OpenFile (targetOf lib w) True, Seek SourceFile] @ replicate n CopyN
             @ [Close SourceFile, Close GzipWriter, Close TargetFile, Remove p ok]"
    using compress_events [OF assms] by blast
  have nc: "\<forall>e \<in> set (replicate n CopyN). \<not> isClose e" by (simp add: isClose_def)
  have dw: "dropWhile (\<lambda>e. \<not> isClose e) (replicate n CopyN @ [Close SourceFile, Close GzipWriter, Close TargetFile, Remove p ok])
       = [Close SourceFile, Close GzipWriter, Close TargetFile, Remove p ok]"
    using nc by (simp add: dropWhile_append3 isClose_def dropWhile_append2)
  show ?thesis
    unfolding ev using dw by (simp add: filter_isClose_replicate isClose_def)
qed

theorem compress_close_order_witness:
  "openTarget io_ok = None
   \<and> filter isClose (snd (snd (compressAndCloseLog lib0 io_ok fs0 writer0)))
           = [Close SourceFile, Close GzipWriter, Close TargetFile]"
  using compress_close_order [of io_ok lib0 fs0 writer0] by (simp add: io_ok_def)

theorem compress_close_order_counterexample:
  "filter isClose (snd (snd (compressAndCloseLog lib0 io_ok fs0 writer0)))
      \<noteq> [Close GzipWriter, Close TargetFile, Close SourceFile]"
  by (simp add: compressAndCloseLog_def io_ok_def lib0_def lib_SplitPath_def Name_def writer0_def
       file0_def Base_def Ext_def lib_Dir_def copyLoop.simps faultAt_def os_Remove_def fs0_def
       isClose_def Let_def)

subsection \<open>Pruning by count\<close>

lemma entryPath_eq [simp]: "entryPath b f = entryPath b g \<longleftrightarrow> fi_name f = fi_name g"
  by (simp add: entryPath_def)
















subsection \<open>The counter of a rotated file\<close>










subsection \<open>Rotation and the open writer\<close>

lemma openLog_open_fails:
  assumes "os_MkdirAll env fDir = None"
    and "os_OpenFile env (fDir @ ''/'' @ newLogFileName lib env (producer m) fDir fName fExt)
           (overwriteFile (producer m)) = Inl err"
  shows "fst (openLog lib env m r base fDir fName fExt) = (Some r, Some err)"
    and "writer (states (snd (openLog lib env m r base fDir fName fExt)) r) = None"
    and "writer (states m r) = Some w \<Longrightarrow>
           GoClose w \<in> set (effects (snd (openLog lib env m r base fDir fName fExt)))"
  using assms by (auto simp add: openLog_def Let_def split: option.splits)

lemma getFileState_open_fails:
  assumes "filesByStream (producer m) streamID = Some r0"
    and "fst (needsRotate env (states m r0) (prod_rotate (producer m)) forceRotate)"
    and "resolvePath env (producer m) streamID = (fDir, fName, fExt)"
    and "files (producer m) (fDir @ ''/'' @ fName @ fExt) = Some r"
    and "os_MkdirAll env fDir = None"
    and "os_OpenFile env (fDir @ ''/'' @ newLogFileName lib env (producer m) fDir fName fExt)
           (overwriteFile (producer m)) = Inl err"
  shows "fst (getFileState lib env m streamID forceRotate) = (Some r, Some err)"
    and "writer (states (snd (getFileState lib env m streamID forceRotate)) r) = None"
    and "writer (states m r) = Some w \<Longrightarrow>
           GoClose w \<in> set (effects (snd (getFileState lib env m streamID forceRotate)))"
proof -
  have g: "getFileState lib env m streamID forceRotate =
             openLog lib env m r (fDir @ ''/'' @ fName @ fExt) fDir fName fExt"
    using assms(1,2,3,4)
    by (auto simp add: getFileState_def Let_def split: prod.splits)
  show "fst (getFileState lib env m streamID forceRotate) = (Some r, Some err)"
    unfolding g using assms(5,6) by (rule openLog_open_fails(1))
  show "writer (states (snd (getFileState lib env m streamID forceRotate)) r) = None"
    unfolding g using assms(5,6) by (rule openLog_open_fails(2))
  show "GoClose w \<in> set (effects (snd (getFileState lib env m streamID forceRotate)))"
    if "writer (states m r) = Some w"
    unfolding g using assms(5,6) that by (rule openLog_open_fails(3))
qed

lemma machine1_facts:
  "filesByStream (producer machine1) 7 = Some 0"
  "fst (needsRotate env_noopen (states machine1 0) (prod_rotate (producer machine1)) True)"
  "resolvePath env_noopen (producer machine1) 7 = (''/var/log'', ''gollum'', ''.log'')"
  "files (producer machine1) (''/var/log'' @ ''/'' @ ''gollum'' @ ''.log'') = Some 0"
  "writer (states machine1 0) = Some writer0"
  "os_MkdirAll env_noopen ''/var/log'' = None"
  "os_OpenFile env_noopen p t = Inl (Err ''permission denied'')"
  by (simp_all add: machine1_def producer0_def needsRotate_def resolvePath_def env_noopen_def
        env_ok_def)

text \<open>
  C2, as the code has it. Let a stream be mapped, let the rotation be due, and let the
  destination of its path hold an open writer. When the directory exists and the new
  file cannot be opened, \<^verbatim>\<open>getFileState\<close> returns the destination together with the
  error of the open; the destination then holds no writer: the writer it held was taken
  out and handed to a background close before the open.
\<close>

theorem rotation_failure_drops_writer:
  assumes "filesByStream (producer m) streamID = Some r0"
    and "fst (needsRotate env (states m r0) (prod_rotate (producer m)) forceRotate)"
    and "resolvePath env (producer m) streamID = (fDir, fName, fExt)"
    and "files (producer m) (fDir @ ''/'' @ fName @ fExt) = Some r"
    and "writer (states m r) = Some w"
    and "os_MkdirAll env fDir = None"
    and "os_OpenFile env (fDir @ ''/'' @ newLogFileName lib env (producer m) fDir fName fExt)
           (overwriteFile (producer m)) = Inl err"
  shows "fst (getFileState lib env m streamID forceRotate) = (Some r, Some err)
       \<and> writer (states (snd (getFileState lib env m streamID forceRotate)) r) = None
       \<and> GoClose w \<in> set (effects (snd (getFileState lib env m streamID forceRotate)))"
  using getFileState_open_fails [OF assms(1,2,3,4,6,7)] assms(5) by simp

theorem rotation_failure_drops_writer_witness:
  "filesByStream (producer machine1) 7 = Some 0
   \<and> writer (states machine1 0) = Some writer0
   \<and> fst (getFileState lib0 env_noopen machine1 7 True) = (Some 0, Some (Err ''permission denied''))
   \<and> writer (states (snd (getFileState lib0 env_noopen machine1 7 True)) 0) = None
   \<and> GoClose writer0 \<in> set (effects (snd (getFileState lib0 env_noopen machine1 7 True)))"
  using rotation_failure_drops_writer [OF machine1_facts(1,2,3,4,5,6) machine1_facts(7), of lib0]
        machine1_facts(1,5)
  by simp

theorem rotation_failure_counterexample:
  "writer (states machine1 0) = Some writer0
   \<and> fst (getFileState lib0 env_noopen machine1 7 True) = (Some 0, Some (Err ''permission denied''))
   \<and> writer (states (snd (getFileState lib0 env_noopen machine1 7 True)) 0) \<noteq> Some writer0"
  using getFileState_open_fails(1,2) [OF machine1_facts(1,2,3,4,6) machine1_facts(7), of lib0]
        machine1_facts(5)
  by simp

subsection \<open>What is handed to the batch\<close>

lemma writeMessage_last_effect:
  "writeMessage lib env m msg = Inr m' \<Longrightarrow>
     last (effects m') = TryFallback msg \<or> (\<exists>r. last (effects m') = AppendOrFlush r msg)"
  by (auto simp add: writeMessage_def Let_def split: prod.splits option.splits)

lemma Clone_is_fresh: "msg < nextMsg m \<Longrightarrow> fst (Clone m msg) \<noteq> msg"
  by (simp add: Clone_def)

text \<open>
  C1. \<^verbatim>\<open>writeMessage\<close> clones the message, reads the stream of the clone, and hands
  the original to \<^verbatim>\<open>AppendOrFlush\<close>: for the first message of a fresh producer, the
  original at address 0, the clone is allocated at address 1 with the same content, and
  the batch of the new destination 0 receives the pointer 0.
\<close>

theorem writeMessage_buffers_original:
  "fst (Clone machine0 0) = 1
   \<and> msgs (snd (Clone machine0 0)) 1 = msgs machine0 0
   \<and> map_sum id effects (writeMessage lib0 env_ok machine0 0) =
       Inr [OsOpenFile ''/var/log/gollum_2001.log'' False True,
            OsSymlink ''gollum_2001.log'' ''/var/log/gollum_current.log.tmp'',
            OsRename ''/var/log/gollum_current.log.tmp'' ''/var/log/gollum_current.log'',
            GoPrune ''/var/log/gollum.log'',
            AppendOrFlush 0 0]"
  by (simp add: writeMessage_def Clone_def getFileState_def openLog_def resolvePath_def
        newLogFileName_def rotatedLogFileName_def chosenCounter_def needsRotate_def
        machine0_def producer0_def env_ok_def rotation0_def newFileState_def
        newFileStateWriterDisk_def message0_def Let_def)

end
